theory Spec2Isabelle
  imports Main "HOL-Library.Sublist"
begin

section \<open>Entity model (KanbanBoard.tsx)\<close>

text \<open>
  The board keeps tickets and epics in two arrays owned by the index page. Identifiers and
  free text are JavaScript strings; they are modelled as \<^typ>\<open>string\<close>, that is as
  sequences of code units below 256. The optional fields \<open>storyPoints\<close> and \<open>epicId\<close>
  are options. Time stamps are the millisecond readings of \<open>Date.now()\<close>.
\<close>

datatype Role = Analyst | Pm | Dev | Qa

datatype TicketStatus = Backlog | InProgress | ReadyForTesting | Done

datatype Priority = Low | Medium | High | Critical

record Epic =
  epic_id :: string
  epic_title :: string
  epic_description :: string
  createdAt :: nat

record Ticket =
  ticket_id :: string
  title :: string
  description :: string
  status :: TicketStatus
  assignee :: Role
  priority :: Priority
  storyPoints :: "nat option"
  epicId :: "string option"

text \<open>The string form of a status, as it appears in \<open>statusConfig\<close> and in column ids.\<close>

fun statusString :: "TicketStatus \<Rightarrow> string" where
  "statusString Backlog = ''backlog''"
| "statusString InProgress = ''in-progress''"
| "statusString ReadyForTesting = ''ready-for-testing''"
| "statusString Done = ''done''"

text \<open>Each column is a droppable whose id is \<open>`column-${status}`\<close>.\<close>

definition columnId :: "TicketStatus \<Rightarrow> string" where
  "columnId st = ''column-'' @ statusString st"

text \<open>\<open>String.prototype.includes\<close>: the argument occurs as a contiguous run.\<close>

fun includes_str :: "string \<Rightarrow> string \<Rightarrow> bool" where
  "includes_str [] sub = (sub = [])"
| "includes_str (c # cs) sub = (prefix sub (c # cs) \<or> includes_str cs sub)"

section \<open>Page state\<close>

text \<open>
  One record for the state of the index page and its two components: the collections owned
  by the page (\<open>onTicketsChange\<close> is \<open>setTickets\<close>, \<open>onClose\<close> of the creation modal is
  \<open>setTicketCreationOpen(false)\<close>), the hooks of the board, the hooks of the creation modal,
  and the browser console the handlers log to.
\<close>

datatype Sender = User | Agent

record Message =
  msg_id :: string
  content :: string
  sender :: Sender
  timestamp :: nat

record TicketForm =
  form_title :: string
  form_description :: string
  form_priority :: Priority
  form_storyPoints :: nat
  form_assignee :: Role

record Page =
  tickets :: "Ticket list"
  epics :: "Epic list"
  isTicketCreationOpen :: bool
  implementingTicketId :: "string option"
  testingTicketId :: "string option"
  implementationError :: "string option"
  activeId :: "string option"
  messages :: "Message list"
  inputMessage :: string
  isLoading :: bool
  isCreatingTicket :: bool
  ticketForm :: TicketForm
  showForm :: bool
  console :: "string list"

section \<open>The drag handler (KanbanBoard.tsx)\<close>

record DragEndEvent =
  active :: string
  over :: "string option"

text \<open>\<open>tickets.find(ticket => ticket.id === i)\<close>: the first ticket carrying the id.\<close>

definition findTicket :: "string \<Rightarrow> Ticket list \<Rightarrow> Ticket option" where
  "findTicket i ts = find (\<lambda>ticket. ticket_id ticket = i) ts"

definition onTicketsChange :: "Ticket list \<Rightarrow> Page \<Rightarrow> Page" where
  "onTicketsChange ts p = p\<lparr>tickets := ts\<rparr>"

text \<open>
  The block of \<open>handleDragEnd\<close> that determines the new status from the drop target.
  \<open>None\<close> is the early \<open>return\<close> on an invalid drop target.
\<close>

definition newStatusOf :: "string \<Rightarrow> Ticket list \<Rightarrow> TicketStatus option" where
  "newStatusOf overId ts =
     (if includes_str overId ''backlog'' then Some Backlog
      else if includes_str overId ''in-progress'' then Some InProgress
      else if includes_str overId ''ready-for-testing'' then Some ReadyForTesting
      else if includes_str overId ''done'' then Some Done
      else (case findTicket overId ts of
              Some targetTicket \<Rightarrow> Some (status targetTicket)
            | None \<Rightarrow> None))"

definition handleDragEnd :: "DragEndEvent \<Rightarrow> Page \<Rightarrow> Page" where
  "handleDragEnd event p =
     (let p0 = p\<lparr>activeId := None\<rparr> in
      case over event of
        None \<Rightarrow> p0
      | Some overId \<Rightarrow>
          (case findTicket (active event) (tickets p) of
             None \<Rightarrow> p0
           | Some activeTicket \<Rightarrow>
               (case newStatusOf overId (tickets p) of
                  None \<Rightarrow> p0
                | Some newStatus \<Rightarrow>
                    if status activeTicket \<noteq> newStatus
                    then onTicketsChange
                           (map (\<lambda>ticket. if ticket_id ticket = active event
                                            then ticket\<lparr>status := newStatus\<rparr>
                                            else ticket) (tickets p)) p0
                    else p0)))"

text \<open>
  The classification of a drop target in the words of the specification: the four
  substrings in their fixed order, the first one contained in the identifier naming the
  status.
\<close>

definition columnSubstrings :: "(string \<times> TicketStatus) list" where
  "columnSubstrings =
     [(''backlog'', Backlog), (''in-progress'', InProgress),
      (''ready-for-testing'', ReadyForTesting), (''done'', Done)]"

definition firstColumnMatch :: "string \<Rightarrow> TicketStatus option" where
  "firstColumnMatch overId =
     map_option snd (find (\<lambda>entry. includes_str overId (fst entry)) columnSubstrings)"

section \<open>The Agent Service (api.ts)\<close>

text \<open>
  \<open>apiService.chatWithRole(roleId, request)\<close> is a round trip to an external service. Its
  promise either resolves to a response, of which the callers read the \<open>response\<close> text
  only, or rejects with a thrown value: an \<open>Error\<close> carrying a message (\<open>request\<close> throws
  \<open>API Error: ...\<close> on a non-success status, \<open>fetch\<close> throws on a network failure) or
  anything else. The service is a parameter of every operation that calls it.
\<close>

datatype Thrown = ErrorObject string | OtherValue

record ChatRequest =
  message :: string
  request_context :: "(string \<times> string) list"

type_synonym AgentService = "string \<Rightarrow> ChatRequest \<Rightarrow> Thrown + string"

section \<open>The developer action (KanbanBoard.tsx)\<close>

text \<open>\<open>String.prototype.split\<close> on a one-character separator.\<close>

fun split_on :: "char \<Rightarrow> string \<Rightarrow> string list" where
  "split_on d [] = [[]]"
| "split_on d (c # cs) =
     (if c = d then [] # split_on d cs
      else (case split_on d cs of w # ws \<Rightarrow> (c # w) # ws | [] \<Rightarrow> [[c]]))"

text \<open>
  \<open>ticket.id.split('.')[1] ? ticket.id : `${ticket.epicId}.${ticket.id.split('.')[0]}`\<close>.
  A missing or empty second part is falsy; a missing \<open>epicId\<close> prints as \<open>undefined\<close>.
\<close>

definition storyIdentifier :: "Ticket \<Rightarrow> string" where
  "storyIdentifier ticket =
     (case split_on CHR ''.'' (ticket_id ticket) of
        p0 # p1 # _ \<Rightarrow>
          if p1 \<noteq> [] then ticket_id ticket
          else (case epicId ticket of None \<Rightarrow> ''undefined'' | Some e \<Rightarrow> e) @ ''.'' @ p0
      | [p0] \<Rightarrow> (case epicId ticket of None \<Rightarrow> ''undefined'' | Some e \<Rightarrow> e) @ ''.'' @ p0
      | [] \<Rightarrow> (case epicId ticket of None \<Rightarrow> ''undefined'' | Some e \<Rightarrow> e) @ ''.'')"

definition devRequest :: "Ticket \<Rightarrow> ChatRequest" where
  "devRequest ticket =
     \<lparr>message = ''dev implement story '' @ storyIdentifier ticket,
      request_context = [(''ticket_id'', ticket_id ticket),
                         (''ticket_title'', title ticket),
                         (''ticket_description'', description ticket),
                         (''current_status'', statusString (status ticket))]\<rparr>"

text \<open>\<open>error instanceof Error ? error.message : fallback\<close>.\<close>

definition errorMessageOr :: "string \<Rightarrow> Thrown \<Rightarrow> string" where
  "errorMessageOr fallback e = (case e of ErrorObject m \<Rightarrow> m | OtherValue \<Rightarrow> fallback)"

text \<open>
  \<open>implementStory\<close>: the round trip is taken as one step, so \<open>tickets\<close> is the collection
  the handler closed over. The \<open>catch\<close> branch records the message; \<open>finally\<close> clears the
  spinner.
\<close>

definition implementStory :: "AgentService \<Rightarrow> Ticket \<Rightarrow> Page \<Rightarrow> Page" where
  "implementStory agent ticket p =
     (let p1 = p\<lparr>implementingTicketId := Some (ticket_id ticket), implementationError := None\<rparr>;
          p2 = (case agent ''dev'' (devRequest ticket) of
                  Inr response \<Rightarrow>
                    (onTicketsChange
                       (map (\<lambda>t. if ticket_id t = ticket_id ticket
                                 then t\<lparr>status := ReadyForTesting\<rparr>
                                 else t) (tickets p)) p1)
                      \<lparr>console := console p1 @ [''Story implementation completed:'']\<rparr>
                | Inl error \<Rightarrow>
                    p1\<lparr>implementationError := Some (errorMessageOr ''Failed to implement story'' error),
                       console := console p1 @ [''Story implementation failed:'']\<rparr>)
      in p2\<lparr>implementingTicketId := None\<rparr>)"

text \<open>
  The board renders \<open>implementationError && <Alert>...</Alert>\<close>: the banner shows the
  recorded message unless it is the empty string, which is falsy.
\<close>

definition errorBanner :: "Page \<Rightarrow> string option" where
  "errorBanner p =
     (case implementationError p of
        None \<Rightarrow> None
      | Some m \<Rightarrow> if m = [] then None else Some m)"

text \<open>\<open>getActionButton\<close>: when the developer action is offered, and when it is enabled.\<close>

definition devActionOffered :: "Role \<Rightarrow> Ticket \<Rightarrow> bool" where
  "devActionOffered currentRole ticket = (currentRole = Dev \<and> status ticket = InProgress)"

definition devActionEnabled :: "Page \<Rightarrow> Ticket \<Rightarrow> bool" where
  "devActionEnabled p ticket = (implementingTicketId p \<noteq> Some (ticket_id ticket))"

section \<open>Numbers and text (the JavaScript built-ins the modal uses)\<close>

text \<open>
  The decimal form of a non-negative integer, as template literals print \<open>Date.now()\<close>
  and an array index, and \<open>parseInt\<close> on a run of decimal digits. Values are exact
  naturals here; JavaScript numbers lose precision above \<open>2^53\<close>.
\<close>

definition digitChar :: "nat \<Rightarrow> char" where
  "digitChar d = ''0123456789'' ! (d mod 10)"

fun showNat :: "nat \<Rightarrow> string" where
  "showNat n = (if n < 10 then [digitChar n] else showNat (n div 10) @ [digitChar (n mod 10)])"

declare showNat.simps [simp del]

definition digitVal :: "char \<Rightarrow> nat" where
  "digitVal c = of_char c - 48"

definition parseInt :: "string \<Rightarrow> nat" where
  "parseInt s = foldl (\<lambda>a c. 10 * a + digitVal c) 0 s"

text \<open>
  Character classes of regular expressions over the code units below 256: \<open>\s\<close>, \<open>\d\<close>,
  the dot without the \<open>s\<close> flag (everything but a line terminator) and with it.
\<close>

definition isSpace :: "char \<Rightarrow> bool" where
  "isSpace c = (c \<in> set [CHR 0x09, CHR 0x0A, CHR 0x0B, CHR 0x0C, CHR 0x0D, CHR 0x20, CHR 0xA0])"

definition isDigit :: "char \<Rightarrow> bool" where
  "isDigit c = (c \<in> set ''0123456789'')"

definition dot :: "char \<Rightarrow> bool" where
  "dot c = (c \<noteq> CHR 0x0A \<and> c \<noteq> CHR 0x0D)"

definition dotAll :: "char \<Rightarrow> bool" where
  "dotAll c = True"

text \<open>\<open>String.prototype.trim\<close> and \<open>Array.prototype.join\<close>.\<close>

definition trim :: "string \<Rightarrow> string" where
  "trim s = rev (dropWhile isSpace (rev (dropWhile isSpace s)))"

fun join :: "string \<Rightarrow> string list \<Rightarrow> string" where
  "join sep [] = []"
| "join sep [x] = x"
| "join sep (x # y # ys) = x @ sep @ join sep (y # ys)"

section \<open>Regular expressions\<close>

text \<open>
  The three patterns of the modal are concatenations of the items below. Every quantified
  item repeats a one-character class, so the number of characters it takes determines
  what it matched. Matching is the backtracking search of the language: a greedy item
  tries the longest run first and gives characters back one at a time, a lazy item tries
  the shortest run first and takes one more character at a time, an alternative is tried
  left to right, and the first way that lets the rest of the pattern match is the result.
  A match returns the captured groups in order and the input left after the match.
\<close>

datatype Rx =
    Lit string                    \<comment> \<open>literal text\<close>
  | Star "char \<Rightarrow> bool"           \<comment> \<open>\<open>c*\<close>, greedy\<close>
  | Plus "char \<Rightarrow> bool"           \<comment> \<open>\<open>c+\<close>, greedy\<close>
  | CapPlus "char \<Rightarrow> bool"        \<comment> \<open>\<open>(c+)\<close>, greedy, captured\<close>
  | CapLazyPlus "char \<Rightarrow> bool"    \<comment> \<open>\<open>(c+?)\<close>, lazy, captured\<close>
  | LitOrEnd string               \<comment> \<open>\<open>(?:text|$)\<close>, \<open>$\<close> being the end of the input\<close>

fun firstSome :: "'a option list \<Rightarrow> 'a option" where
  "firstSome [] = None"
| "firstSome (Some x # xs) = Some x"
| "firstSome (None # xs) = firstSome xs"

definition runLength :: "(char \<Rightarrow> bool) \<Rightarrow> string \<Rightarrow> nat" where
  "runLength c s = length (takeWhile c s)"

fun rmatch :: "Rx list \<Rightarrow> string \<Rightarrow> string list \<Rightarrow> (string list \<times> string) option" where
  "rmatch [] s caps = Some (caps, s)"
| "rmatch (Lit l # r) s caps =
     (if prefix l s then rmatch r (drop (length l) s) caps else None)"
| "rmatch (Star c # r) s caps =
     firstSome (map (\<lambda>k. rmatch r (drop k s) caps) (rev [0..<Suc (runLength c s)]))"
| "rmatch (Plus c # r) s caps =
     firstSome (map (\<lambda>k. rmatch r (drop k s) caps) (rev [1..<Suc (runLength c s)]))"
| "rmatch (CapPlus c # r) s caps =
     firstSome (map (\<lambda>k. rmatch r (drop k s) (caps @ [take k s])) (rev [1..<Suc (runLength c s)]))"
| "rmatch (CapLazyPlus c # r) s caps =
     firstSome (map (\<lambda>k. rmatch r (drop k s) (caps @ [take k s])) [1..<Suc (runLength c s)])"
| "rmatch (LitOrEnd l # r) s caps =
     (case (if prefix l s then rmatch r (drop (length l) s) caps else None) of
        Some m \<Rightarrow> Some m
      | None \<Rightarrow> if s = [] then rmatch r s caps else None)"

text \<open>
  \<open>RegExp.prototype.exec\<close> from the current position: the match at the leftmost position
  where the pattern matches, the end of the input included.
\<close>

fun regexExec :: "Rx list \<Rightarrow> string \<Rightarrow> (string list \<times> string) option" where
  "regexExec pat [] = rmatch pat [] []"
| "regexExec pat (c # cs) =
     (case rmatch pat (c # cs) [] of
        Some m \<Rightarrow> Some m
      | None \<Rightarrow> regexExec pat cs)"

section \<open>The creation modal (TicketCreationModal.tsx)\<close>

definition nl :: string where
  "nl = [CHR 0x0A]"

definition welcomeContent :: string where
  "welcomeContent =
     ''Hello! I'' @ [CHR 0x27] @ ''m your Product Manager AI. I'' @ [CHR 0x27] @
     ''ll help you create detailed user stories and tickets based on the project requirements. '' @
     nl @ nl @
     ''Please describe what feature or functionality you'' @ [CHR 0x27] @
     ''d like to implement, and I'' @ [CHR 0x27] @
     ''ll help you create a proper user story with acceptance criteria.''"

definition initialTicketForm :: TicketForm where
  "initialTicketForm =
     \<lparr>form_title = [], form_description = [], form_priority = Medium,
      form_storyPoints = 5, form_assignee = Dev\<rparr>"

text \<open>The story-point select: its items, and its change handler.\<close>

definition storyPointItems :: "string list" where
  "storyPointItems = [''1'', ''2'', ''3'', ''5'', ''8'', ''13'']"

definition selectStoryPoints :: "string \<Rightarrow> Page \<Rightarrow> Page" where
  "selectStoryPoints v p = p\<lparr>ticketForm := (ticketForm p)\<lparr>form_storyPoints := parseInt v\<rparr>\<rparr>"

text \<open>\<open>resetModal\<close>; the argument is the clock reading of the welcome message.\<close>

definition resetModal :: "nat \<Rightarrow> Page \<Rightarrow> Page" where
  "resetModal now p =
     p\<lparr>messages := [\<lparr>msg_id = ''welcome'', content = welcomeContent, sender = Agent, timestamp = now\<rparr>],
       inputMessage := [],
       ticketForm := initialTicketForm,
       showForm := False\<rparr>"

text \<open>The callbacks the index page passes to the modal.\<close>

definition handleTicketsCreated :: "Ticket list \<Rightarrow> Epic \<Rightarrow> Page \<Rightarrow> Page" where
  "handleTicketsCreated newTickets epic p =
     p\<lparr>tickets := tickets p @ newTickets, epics := epics p @ [epic]\<rparr>"

definition onClose :: "Page \<Rightarrow> Page" where
  "onClose p = p\<lparr>isTicketCreationOpen := False\<rparr>"

subsection \<open>The two requests\<close>

definition epicRequest :: "string \<Rightarrow> ChatRequest" where
  "epicRequest conversationSummary =
     \<lparr>message =
        ''Based on our conversation, create a concise epic title (max 10 words) and a brief description (2-3 sentences) that captures the overall feature or capability being requested.'' @
        nl @ nl @
        ''        Format your response as:'' @ nl @
        ''        Title: [Epic Title]'' @ nl @
        ''        Description: [Epic Description]'' @ nl @ nl @
        ''        Conversation: '' @ conversationSummary,
      request_context = [(''purpose'', ''epic_generation'')]\<rparr>"

definition storiesRequest :: "string \<Rightarrow> ChatRequest" where
  "storiesRequest conversationSummary =
     \<lparr>message =
        ''Based on our conversation, break down this epic into 2-5 individual user stories. Each user story should be a complete, independent piece of functionality.'' @
        nl @ nl @
        ''        For each user story, provide:'' @ nl @
        ''        - A clear, concise title (max 15 words)'' @ nl @
        ''        - A brief description (2-3 sentences)'' @ nl @
        ''        - Suggested story points (1, 2, 3, 5, 8, or 13)'' @ nl @ nl @
        ''        Format each user story as:'' @ nl @
        ''        Story [number]:'' @ nl @
        ''        Title: [Story Title]'' @ nl @
        ''        Description: [Story Description]'' @ nl @
        ''        Story Points: [points]'' @ nl @ nl @
        ''        Conversation: '' @ conversationSummary,
      request_context = [(''purpose'', ''user_story_breakdown'')]\<rparr>"

subsection \<open>The three patterns\<close>

text \<open>\<open>/Title:\s*(.+?)(?:\n|$)/\<close>\<close>

definition epicTitlePattern :: "Rx list" where
  "epicTitlePattern = [Lit ''Title:'', Star isSpace, CapLazyPlus dot, LitOrEnd nl]"

text \<open>\<open>/Description:\s*(.+?)(?:\n\n|$)/s\<close>\<close>

definition epicDescPattern :: "Rx list" where
  "epicDescPattern = [Lit ''Description:'', Star isSpace, CapLazyPlus dotAll, LitOrEnd (nl @ nl)]"

text \<open>\<open>/Story \d+:\s*Title:\s*(.+?)\s*Description:\s*(.+?)\s*Story Points:\s*(\d+)/gs\<close>\<close>

definition storyPattern :: "Rx list" where
  "storyPattern =
     [Lit ''Story '', Plus isDigit, Lit '':'', Star isSpace,
      Lit ''Title:'', Star isSpace, CapLazyPlus dotAll, Star isSpace,
      Lit ''Description:'', Star isSpace, CapLazyPlus dotAll, Star isSpace,
      Lit ''Story Points:'', Star isSpace, CapPlus isDigit]"

record Story =
  story_title :: string
  story_description :: string
  story_points :: nat

text \<open>
  The body of the \<open>while\<close> loop: \<open>const [, title, description, storyPoints] = match\<close> and
  the object pushed. A match of the story pattern always has its three groups.
\<close>

definition storyOf :: "string list \<Rightarrow> Story" where
  "storyOf caps =
     (case caps of
        [t, d, sp] \<Rightarrow>
          \<lparr>story_title = trim t, story_description = trim d, story_points = parseInt (trim sp)\<rparr>
      | _ \<Rightarrow> \<lparr>story_title = [], story_description = [], story_points = 0\<rparr>)"

text \<open>
  \<open>while ((match = storyPattern.exec(response)) !== null)\<close> with the \<open>g\<close> flag: each
  search starts where the previous match ended. A match starts with \<open>Story\<close>, so it is
  never empty and the loop ends.
\<close>

function scanStories :: "string \<Rightarrow> Story list" where
  "scanStories s =
     (case regexExec storyPattern s of
        None \<Rightarrow> []
      | Some (caps, rest) \<Rightarrow> storyOf caps # scanStories rest)"
  by pat_completeness auto
termination
proof (relation "measure length")
  show "wf (measure length)" by simp
next
  fix s :: string and m caps rest
  assume ex: "regexExec storyPattern s = Some m" and m: "(caps, rest) = m"
  have some_in: "\<And>(xs :: (string list \<times> string) option list) y.
      firstSome xs = Some y \<Longrightarrow> Some y \<in> set xs"
  proof -
    fix xs :: "(string list \<times> string) option list" and y
    show "firstSome xs = Some y \<Longrightarrow> Some y \<in> set xs"
      by (induction xs rule: firstSome.induct) auto
  qed
  have shorter: "\<And>p s c c' r'. rmatch p s c = Some (c', r') \<Longrightarrow> length r' \<le> length s"
  proof -
    fix p s c c' r'
    show "rmatch p s c = Some (c', r') \<Longrightarrow> length r' \<le> length s"
    proof (induction p s c arbitrary: c' r' rule: rmatch.induct)
      case (1 s caps)
      then show ?case by simp
    next
      case (2 l r s caps)
      then show ?case by (fastforce split: if_splits)
    next
      case (3 c r s caps)
      from some_in[OF 3(2)[unfolded rmatch.simps]]
      obtain k where "k \<in> set (rev [0..<Suc (runLength c s)])"
        and "rmatch r (drop k s) caps = Some (c', r')"
        by (auto simp del: upt_Suc)
      from 3(1)[OF this] show ?case by simp
    next
      case (4 c r s caps)
      from some_in[OF 4(2)[unfolded rmatch.simps]]
      obtain k where "k \<in> set (rev [1..<Suc (runLength c s)])"
        and "rmatch r (drop k s) caps = Some (c', r')"
        by (auto simp del: upt_Suc)
      from 4(1)[OF this] show ?case by simp
    next
      case (5 c r s caps)
      from some_in[OF 5(2)[unfolded rmatch.simps]]
      obtain k where "k \<in> set (rev [1..<Suc (runLength c s)])"
        and "rmatch r (drop k s) (caps @ [take k s]) = Some (c', r')"
        by (auto simp del: upt_Suc)
      from 5(1)[OF this] show ?case by simp
    next
      case (6 c r s caps)
      from some_in[OF 6(2)[unfolded rmatch.simps]]
      obtain k where "k \<in> set [1..<Suc (runLength c s)]"
        and "rmatch r (drop k s) (caps @ [take k s]) = Some (c', r')"
        by (auto simp del: upt_Suc)
      from 6(1)[OF this] show ?case by simp
    next
      case (7 l r s caps)
      then show ?case by (fastforce split: if_splits option.splits)
    qed
  qed
  have lit: "\<And>l p s c c' r'. rmatch (Lit l # p) s c = Some (c', r') \<Longrightarrow>
      length r' + length l \<le> length s"
  proof -
    fix l p s c c' r'
    assume "rmatch (Lit l # p) s c = Some (c', r')"
    then have pre: "prefix l s" and "rmatch p (drop (length l) s) c = Some (c', r')"
      by (auto split: if_splits)
    from shorter[OF this(2)] have "length r' \<le> length s - length l" by simp
    moreover from pre have "length l \<le> length s" by (rule prefix_length_le)
    ultimately show "length r' + length l \<le> length s" by simp
  qed
  have "\<And>c' r'. regexExec storyPattern s = Some (c', r') \<Longrightarrow> length r' < length s"
  proof (induction s)
    case Nil
    then show ?case by (simp add: storyPattern_def)
  next
    case (Cons a s)
    show ?case
    proof (cases "rmatch storyPattern (a # s) []")
      case None
      with Cons show ?thesis by fastforce
    next
      case (Some m')
      with Cons.prems have "rmatch storyPattern (a # s) [] = Some (c', r')" by simp
      from lit[OF this[unfolded storyPattern_def]] show ?thesis by simp
    qed
  qed
  with ex m show "(rest, s) \<in> measure length" by auto
qed

declare scanStories.simps [simp del]

subsection \<open>Identifiers\<close>

text \<open>\<open>`EPIC-${Date.now()}`\<close> and \<open>`TICKET-${Date.now()}-${index}`\<close> at a clock reading.\<close>

definition epicIdAt :: "nat \<Rightarrow> string" where
  "epicIdAt now = ''EPIC-'' @ showNat now"

definition ticketIdAt :: "nat \<Rightarrow> nat \<Rightarrow> string" where
  "ticketIdAt now index = ''TICKET-'' @ showNat now @ ''-'' @ showNat index"

subsection \<open>The extraction pipeline\<close>

text \<open>
  The \<open>try\<close> block of \<open>generateEpicFromConversation\<close> up to the call of
  \<open>onTicketsCreated\<close>: \<open>Inr\<close> carries the two arguments of that call, \<open>Inl\<close> the value thrown
  by a rejected round trip. \<open>clock k\<close> is the \<open>k\<close>-th clock reading the invocation takes:
  reading \<open>0\<close> for the epic id, reading \<open>1\<close> for \<open>createdAt\<close>, reading \<open>2 + index\<close> for the
  ticket at \<open>index\<close>. The form is the \<open>ticketForm\<close> the handler closed over.
  \<open>ticketOfStory\<close> is the arrow function passed to \<open>stories.map\<close>.
\<close>

text \<open>
  \<open>messages.filter(m => m.sender === 'user').map(m => m.content).join('\n\n')\<close>, the
  conversation summary both requests carry.
\<close>

definition summaryOf :: "Message list \<Rightarrow> string" where
  "summaryOf msgs = join (nl @ nl) (map content (filter (\<lambda>m. sender m = User) msgs))"

definition ticketOfStory :: "(nat \<Rightarrow> nat) \<Rightarrow> TicketForm \<Rightarrow> string \<Rightarrow> nat \<times> Story \<Rightarrow> Ticket" where
  "ticketOfStory clock form newEpicId =
     (\<lambda>(index, story).
        \<lparr>ticket_id = ticketIdAt (clock (2 + index)) index,
         title = story_title story,
         description = story_description story,
         status = Backlog,
         assignee = form_assignee form,
         priority = form_priority form,
         storyPoints = Some (story_points story),
         epicId = Some newEpicId\<rparr>)"

text \<open>
  The epic built from the response of the first pass: the two \<open>match\<close> calls with their
  fallbacks, the identifier and the object.
\<close>

definition epicOf :: "(nat \<Rightarrow> nat) \<Rightarrow> TicketForm \<Rightarrow> string \<Rightarrow> Epic" where
  "epicOf clock form epicResponse =
     (let epicTitle =
            (case regexExec epicTitlePattern epicResponse of
               Some (t # _, _) \<Rightarrow> trim t
             | _ \<Rightarrow> if form_title form \<noteq> [] then form_title form else ''Generated Epic'');
          epicDescription =
            (case regexExec epicDescPattern epicResponse of
               Some (d # _, _) \<Rightarrow> trim d
             | _ \<Rightarrow> ''Epic generated from conversation'');
          newEpicId = epicIdAt (clock 0)
      in \<lparr>epic_id = newEpicId, epic_title = epicTitle,
          epic_description = epicDescription, createdAt = clock 1\<rparr>)"

text \<open>
  The stories of the second response: the scan, and the single story built from the epic
  and from \<open>ticketForm.storyPoints || 5\<close> when the scan found none.
\<close>

definition storiesOf :: "TicketForm \<Rightarrow> Epic \<Rightarrow> string \<Rightarrow> Story list" where
  "storiesOf form epic storiesResponse =
     (let stories = scanStories storiesResponse
      in if length stories = 0
         then [\<lparr>story_title = epic_title epic,
                story_description = epic_description epic,
                story_points = (if form_storyPoints form \<noteq> 0
                                then form_storyPoints form else 5)\<rparr>]
         else stories)"

definition epicFromConversation ::
  "AgentService \<Rightarrow> (nat \<Rightarrow> nat) \<Rightarrow> TicketForm \<Rightarrow> Message list \<Rightarrow> Thrown + (Ticket list \<times> Epic)" where
  "epicFromConversation agent clock form msgs =
     (let conversationSummary = summaryOf msgs
      in case agent ''pm'' (epicRequest conversationSummary) of
           Inl error \<Rightarrow> Inl error
         | Inr epicResponse \<Rightarrow>
             (let epic = epicOf clock form epicResponse
              in case agent ''pm'' (storiesRequest conversationSummary) of
                   Inl error \<Rightarrow> Inl error
                 | Inr storiesResponse \<Rightarrow>
                     (let stories = storiesOf form epic storiesResponse;
                          newTickets =
                            map (ticketOfStory clock form (epic_id epic)) (enumerate 0 stories)
                      in Inr (newTickets, epic))))"

text \<open>
  The whole handler on the page: the spinner flag, the \<open>try\<close> block, then either the three
  calls after materialization or the \<open>catch\<close> branch, which writes to the console only, and
  \<open>finally\<close>.
\<close>

definition generateEpicFromConversation :: "AgentService \<Rightarrow> (nat \<Rightarrow> nat) \<Rightarrow> Page \<Rightarrow> Page" where
  "generateEpicFromConversation agent clock p =
     (let p1 = p\<lparr>isCreatingTicket := True\<rparr>;
          p2 = (case epicFromConversation agent clock (ticketForm p) (messages p) of
                  Inr (newTickets, epic) \<Rightarrow>
                    resetModal (clock (2 + length newTickets))
                      (onClose (handleTicketsCreated newTickets epic p1))
                | Inl error \<Rightarrow> p1\<lparr>console := console p1 @ [''Epic generation failed:'']\<rparr>)
      in p2\<lparr>isCreatingTicket := False\<rparr>)"

text \<open>
  Where an identifier already on the board came from: both creation paths of the modal
  build epic ids and ticket ids of these two shapes from a clock reading.
\<close>

datatype Minted = EpicAt nat | TicketAt nat nat

fun mintedId :: "Minted \<Rightarrow> string" where
  "mintedId (EpicAt now) = epicIdAt now"
| "mintedId (TicketAt now index) = ticketIdAt now index"

fun mintedReading :: "Minted \<Rightarrow> nat" where
  "mintedReading (EpicAt now) = now"
| "mintedReading (TicketAt now index) = now"

text \<open>The clock readings that enter the identifiers of an invocation creating \<open>n\<close> tickets.\<close>

definition idReadings :: "(nat \<Rightarrow> nat) \<Rightarrow> nat \<Rightarrow> nat list" where
  "idReadings clock n = clock 0 # map (\<lambda>index. clock (2 + index)) [0..<n]"

section \<open>Sample data\<close>

text \<open>Concrete tickets, pages, services and clocks on which the results below are run.\<close>

definition sampleTicket :: "string \<Rightarrow> TicketStatus \<Rightarrow> Ticket" where
  "sampleTicket i st =
     \<lparr>ticket_id = i, title = ''Email/password login'', description = ''Users can log in.'',
      status = st, assignee = Dev, priority = Medium, storyPoints = Some 5,
      epicId = Some ''EPIC-1000''\<rparr>"

definition samplePage :: "Ticket list \<Rightarrow> Page" where
  "samplePage ts =
     \<lparr>tickets = ts, epics = [], isTicketCreationOpen = True,
      implementingTicketId = None, testingTicketId = None, implementationError = None,
      activeId = None,
      messages = [\<lparr>msg_id = ''welcome'', content = ''Hello!'', sender = Agent, timestamp = 0\<rparr>,
                  \<lparr>msg_id = ''1000'', content = ''We need user login with email and password'',
                   sender = User, timestamp = 1000\<rparr>,
                  \<lparr>msg_id = ''1001'', content = ''Understood.'', sender = Agent, timestamp = 1001\<rparr>],
      inputMessage = [], isLoading = False, isCreatingTicket = False,
      ticketForm = initialTicketForm, showForm = False, console = []\<rparr>"

text \<open>A service that answers the two passes of the pipeline, and every other request, as told.\<close>

definition sampleAgent :: "Thrown + string \<Rightarrow> Thrown + string \<Rightarrow> AgentService" where
  "sampleAgent epicResult otherResult role request =
     (if map_of (request_context request) ''purpose'' = Some ''epic_generation''
      then epicResult else otherResult)"

definition serviceDown :: Thrown where
  "serviceDown = ErrorObject ''API Error: 503 Service Unavailable''"

definition sampleEpic :: Epic where
  "sampleEpic =
     \<lparr>epic_id = ''EPIC-1000'', epic_title = ''User Login'',
      epic_description = ''Allow users to authenticate.'', createdAt = 1001\<rparr>"

definition sampleEpicText :: string where
  "sampleEpicText = ''Title: User Login'' @ nl @ ''Description: Allow users to authenticate.''"

definition sampleStoryText :: string where
  "sampleStoryText =
     ''Story 1:'' @ nl @ ''Title: Email/password login'' @ nl @
     ''Description: Users can log in.'' @ nl @ ''Story Points: 5''"

text \<open>A clock that advances by one millisecond per reading, and one that stands still.\<close>

definition tickingClock :: "nat \<Rightarrow> nat \<Rightarrow> nat" where
  "tickingClock start k = start + k"

definition stoppedClock :: "nat \<Rightarrow> nat \<Rightarrow> nat" where
  "stoppedClock now k = now"

section \<open>Drag and drop: results\<close>

subsection \<open>Auxiliary facts\<close>

lemma includes_str_sublist: "includes_str s sub = sublist sub s"
  by (induction s) (auto simp: sublist_Cons_right)

lemma includes_str_set: "includes_str s sub \<Longrightarrow> set sub \<subseteq> set s"
  by (simp add: includes_str_sublist set_mono_sublist)

lemma find_map_same:
  assumes "\<And>x. P (f x) = P x"
  shows "find P (map f xs) = map_option f (find P xs)"
  using assms by (induction xs) auto

lemma findTicket_map_status:
  "findTicket i (map (\<lambda>ticket. if ticket_id ticket = a then ticket\<lparr>status := s\<rparr> else ticket) ts)
     = map_option (\<lambda>ticket. if ticket_id ticket = a then ticket\<lparr>status := s\<rparr> else ticket)
         (findTicket i ts)"
  unfolding findTicket_def by (rule find_map_same) simp

lemma findTicket_id: "findTicket i ts = Some t \<Longrightarrow> ticket_id t = i \<and> t \<in> set ts"
  unfolding findTicket_def by (auto simp: find_Some_iff)

text \<open>With unique ids, the ticket found under an id is the only ticket carrying it.\<close>

lemma findTicket_distinct:
  assumes "distinct (map ticket_id ts)" and "t \<in> set ts"
  shows "findTicket (ticket_id t) ts = Some t"
  using assms unfolding findTicket_def by (induction ts) force+

lemma columnId_values:
  "map columnId [Backlog, InProgress, ReadyForTesting, Done] =
     [''column-backlog'', ''column-in-progress'', ''column-ready-for-testing'', ''column-done'']"
  by (simp add: columnId_def)

lemma newStatusOf_columnId: "newStatusOf (columnId col) ts = Some col"
  by (cases col) (simp_all add: newStatusOf_def columnId_def)

lemma newStatusOf_ticket:
  assumes "\<not> includes_str overId ''backlog''" "\<not> includes_str overId ''in-progress''"
      "\<not> includes_str overId ''ready-for-testing''" "\<not> includes_str overId ''done''"
  shows "newStatusOf overId ts = map_option status (findTicket overId ts)"
  using assms by (simp add: newStatusOf_def split: option.splits)

lemma newStatusOf_firstColumnMatch:
  "newStatusOf overId ts =
     (case firstColumnMatch overId of
        Some st \<Rightarrow> Some st
      | None \<Rightarrow> map_option status (findTicket overId ts))"
  by (simp add: newStatusOf_def firstColumnMatch_def columnSubstrings_def split: option.splits)

text \<open>
  Whatever status the drop target resolves to, the active ticket carries it afterwards and
  is otherwise the ticket it was.
\<close>

lemma handleDragEnd_active:
  assumes "findTicket (active ev) (tickets p) = Some t"
      and "over ev = Some overId"
      and "newStatusOf overId (tickets p) = Some st"
  shows "findTicket (active ev) (tickets (handleDragEnd ev p)) = Some (t\<lparr>status := st\<rparr>)"
proof (cases "status t = st")
  case True
  then have "t\<lparr>status := st\<rparr> = t" by auto
  with True assms show ?thesis by (simp add: handleDragEnd_def)
next
  case False
  from assms(1) have "ticket_id t = active ev" by (simp add: findTicket_id)
  with False assms show ?thesis
    by (simp add: handleDragEnd_def onTicketsChange_def findTicket_map_status)
qed

text \<open>The handler either leaves the collection alone or maps one status over it.\<close>

lemma handleDragEnd_tickets:
  "tickets (handleDragEnd ev p) = tickets p \<or>
   (\<exists>st. tickets (handleDragEnd ev p) =
      map (\<lambda>ticket. if ticket_id ticket = active ev then ticket\<lparr>status := st\<rparr> else ticket)
        (tickets p))"
  by (auto simp: handleDragEnd_def onTicketsChange_def Let_def split: option.splits)

lemma handleDragEnd_epics: "epics (handleDragEnd ev p) = epics p"
  by (simp add: handleDragEnd_def onTicketsChange_def Let_def split: option.splits)

text \<open>A gesture that is cancelled, or whose ticket or target is unknown, changes nothing.\<close>

lemma handleDragEnd_declines:
  "over ev = None \<or> findTicket (active ev) (tickets p) = None
     \<or> (\<exists>overId. over ev = Some overId \<and> newStatusOf overId (tickets p) = None)
   \<Longrightarrow> handleDragEnd ev p = p\<lparr>activeId := None\<rparr>"
  by (auto simp: handleDragEnd_def Let_def split: option.splits)

subsection \<open>Idempotence\<close>

text \<open>
  C2. For every ticket collection and every drag gesture on a ticket of it whose resolved
  target status equals the ticket's current status, the resulting collection equals the
  collection before the gesture. The ticket of the gesture is the one the handler finds
  under the active id. The handler makes no update at all: the page is the page before,
  with the drag marker cleared.
\<close>

theorem drag_to_current_status_is_noop:
  assumes "findTicket (active ev) (tickets p) = Some t"
      and "over ev = Some overId"
      and "newStatusOf overId (tickets p) = Some (status t)"
  shows "tickets (handleDragEnd ev p) = tickets p \<and> handleDragEnd ev p = p\<lparr>activeId := None\<rparr>"
  using assms by (simp add: handleDragEnd_def)

theorem drag_to_current_status_is_noop_witness:
  "findTicket ''T-1'' [sampleTicket ''T-1'' InProgress, sampleTicket ''T-2'' Done]
     = Some (sampleTicket ''T-1'' InProgress)
   \<and> newStatusOf ''column-in-progress'' [sampleTicket ''T-1'' InProgress, sampleTicket ''T-2'' Done]
     = Some InProgress
   \<and> tickets (handleDragEnd \<lparr>active = ''T-1'', over = Some ''column-in-progress''\<rparr>
               (samplePage [sampleTicket ''T-1'' InProgress, sampleTicket ''T-2'' Done]))
     = [sampleTicket ''T-1'' InProgress, sampleTicket ''T-2'' Done]"
proof -
  let ?ts = "[sampleTicket ''T-1'' InProgress, sampleTicket ''T-2'' Done]"
  let ?ev = "\<lparr>active = ''T-1'', over = Some ''column-in-progress''\<rparr>"
  have h1: "findTicket (active ?ev) (tickets (samplePage ?ts)) = Some (sampleTicket ''T-1'' InProgress)"
    by (simp add: findTicket_def sampleTicket_def samplePage_def)
  have h2: "over ?ev = Some ''column-in-progress''" by simp
  have h3: "newStatusOf ''column-in-progress'' (tickets (samplePage ?ts))
              = Some (status (sampleTicket ''T-1'' InProgress))"
    by (simp add: newStatusOf_def sampleTicket_def)
  from drag_to_current_status_is_noop[OF h1 h2 h3] h1 h3 show ?thesis
    by (simp add: samplePage_def sampleTicket_def)
qed

subsection \<open>Frame\<close>

text \<open>
  The update maps over the whole collection and rewrites every ticket that carries the
  active id. On a board that holds the same id twice (two creations that read the same
  millisecond, one of them moved since), dragging the first of the two onto the done column
  also moves the second, a ticket other than the dragged one, from the backlog to done.
\<close>

theorem status_change_touches_same_id_counterexample:
  "findTicket ''TICKET-1730000000000-0''
      [sampleTicket ''TICKET-1730000000000-0'' InProgress,
       sampleTicket ''TICKET-1730000000000-0'' Backlog]
     = Some (sampleTicket ''TICKET-1730000000000-0'' InProgress)
   \<and> sampleTicket ''TICKET-1730000000000-0'' Backlog
       \<noteq> sampleTicket ''TICKET-1730000000000-0'' InProgress
   \<and> tickets (handleDragEnd \<lparr>active = ''TICKET-1730000000000-0'', over = Some ''column-done''\<rparr>
        (samplePage [sampleTicket ''TICKET-1730000000000-0'' InProgress,
                     sampleTicket ''TICKET-1730000000000-0'' Backlog]))
     = [sampleTicket ''TICKET-1730000000000-0'' Done,
        sampleTicket ''TICKET-1730000000000-0'' Done]"
  by (simp add: handleDragEnd_def samplePage_def sampleTicket_def findTicket_def newStatusOf_def
      onTicketsChange_def)

text \<open>
  C3 (amended). A status change by drag returns the collection it was given except for the
  status of the tickets carrying the dragged ticket's id: length and order are kept, at
  every position the ticket is the input ticket up to its status (so its id, title,
  description, assignee, priority, story points and epic reference are the input's), and
  every ticket with another id is unchanged. When the ids of the collection are unique,
  every ticket other than the dragged one is unchanged. The epics are not touched.
\<close>

theorem status_change_frame:
  "length (tickets (handleDragEnd ev p)) = length (tickets p) \<and>
   epics (handleDragEnd ev p) = epics p \<and>
   (\<forall>i < length (tickets p).
      (tickets (handleDragEnd ev p) ! i)\<lparr>status := status (tickets p ! i)\<rparr> = tickets p ! i \<and>
      ticket_id (tickets (handleDragEnd ev p) ! i) = ticket_id (tickets p ! i) \<and>
      title (tickets (handleDragEnd ev p) ! i) = title (tickets p ! i) \<and>
      description (tickets (handleDragEnd ev p) ! i) = description (tickets p ! i) \<and>
      assignee (tickets (handleDragEnd ev p) ! i) = assignee (tickets p ! i) \<and>
      priority (tickets (handleDragEnd ev p) ! i) = priority (tickets p ! i) \<and>
      storyPoints (tickets (handleDragEnd ev p) ! i) = storyPoints (tickets p ! i) \<and>
      epicId (tickets (handleDragEnd ev p) ! i) = epicId (tickets p ! i) \<and>
      (ticket_id (tickets p ! i) \<noteq> active ev \<longrightarrow>
         tickets (handleDragEnd ev p) ! i = tickets p ! i)) \<and>
   (distinct (map ticket_id (tickets p)) \<longrightarrow> findTicket (active ev) (tickets p) = Some t \<longrightarrow>
      (\<forall>i < length (tickets p). tickets p ! i \<noteq> t \<longrightarrow>
         tickets (handleDragEnd ev p) ! i = tickets p ! i))"
proof -
  have other: "ticket_id (tickets p ! i) \<noteq> active ev"
    if d: "distinct (map ticket_id (tickets p))" and f: "findTicket (active ev) (tickets p) = Some t"
      and i: "i < length (tickets p)" and ne: "tickets p ! i \<noteq> t" for i
  proof
    assume "ticket_id (tickets p ! i) = active ev"
    moreover from i have "tickets p ! i \<in> set (tickets p)" by simp
    ultimately have "findTicket (active ev) (tickets p) = Some (tickets p ! i)"
      using findTicket_distinct[OF d] by metis
    with f ne show False by simp
  qed
  from handleDragEnd_tickets[of ev p] show ?thesis
  proof
    assume "tickets (handleDragEnd ev p) = tickets p"
    then show ?thesis by (simp add: handleDragEnd_epics)
  next
    assume "\<exists>st. tickets (handleDragEnd ev p) =
      map (\<lambda>ticket. if ticket_id ticket = active ev then ticket\<lparr>status := st\<rparr> else ticket)
        (tickets p)"
    then obtain st where "tickets (handleDragEnd ev p) =
      map (\<lambda>ticket. if ticket_id ticket = active ev then ticket\<lparr>status := st\<rparr> else ticket)
        (tickets p)" ..
    then show ?thesis using other by (simp add: handleDragEnd_epics)
  qed
qed

theorem status_change_frame_witness:
  "length (tickets (handleDragEnd \<lparr>active = ''T-1'', over = Some ''column-done''\<rparr>
      (samplePage [sampleTicket ''T-1'' InProgress, sampleTicket ''T-2'' Backlog]))) = 2
   \<and> title (tickets (handleDragEnd \<lparr>active = ''T-1'', over = Some ''column-done''\<rparr>
      (samplePage [sampleTicket ''T-1'' InProgress, sampleTicket ''T-2'' Backlog])) ! 0)
      = ''Email/password login''
   \<and> tickets (handleDragEnd \<lparr>active = ''T-1'', over = Some ''column-done''\<rparr>
      (samplePage [sampleTicket ''T-1'' InProgress, sampleTicket ''T-2'' Backlog])) ! 1
      = sampleTicket ''T-2'' Backlog
   \<and> status (tickets (handleDragEnd \<lparr>active = ''T-1'', over = Some ''column-done''\<rparr>
      (samplePage [sampleTicket ''T-1'' InProgress, sampleTicket ''T-2'' Backlog])) ! 0) = Done"
proof -
  let ?ts = "[sampleTicket ''T-1'' InProgress, sampleTicket ''T-2'' Backlog]"
  let ?ev = "\<lparr>active = ''T-1'', over = Some ''column-done''\<rparr>"
  have len: "length (tickets (samplePage ?ts)) = 2" by (simp add: samplePage_def)
  have d: "distinct (map ticket_id (tickets (samplePage ?ts)))"
    by (simp add: samplePage_def sampleTicket_def)
  have f: "findTicket (active ?ev) (tickets (samplePage ?ts)) = Some (sampleTicket ''T-1'' InProgress)"
    by (simp add: samplePage_def sampleTicket_def findTicket_def)
  have ne: "tickets (samplePage ?ts) ! 1 \<noteq> sampleTicket ''T-1'' InProgress"
    by (simp add: samplePage_def sampleTicket_def)
  have st: "status (tickets (handleDragEnd ?ev (samplePage ?ts)) ! 0) = Done"
    by (simp add: handleDragEnd_def samplePage_def sampleTicket_def findTicket_def newStatusOf_def
        onTicketsChange_def)
  note fr = status_change_frame[of ?ev "samplePage ?ts" "sampleTicket ''T-1'' InProgress"]
  from fr len have "length (tickets (handleDragEnd ?ev (samplePage ?ts))) = 2" by simp
  moreover from fr len have "title (tickets (handleDragEnd ?ev (samplePage ?ts)) ! 0)
      = title (tickets (samplePage ?ts) ! 0)" by simp
  moreover from fr d f ne len have "tickets (handleDragEnd ?ev (samplePage ?ts)) ! 1
      = tickets (samplePage ?ts) ! 1" by simp
  ultimately show ?thesis using st by (simp add: samplePage_def sampleTicket_def)
qed

subsection \<open>Dropping on a column\<close>

text \<open>
  C4. For every drag gesture whose active ticket exists in the collection and whose drop
  target is one of the four column identifiers (\<open>columnId col\<close>, see \<open>columnId_values\<close>),
  the active ticket afterwards has that column's status, whatever its status was before,
  and is otherwise the ticket it was.
\<close>

theorem drop_on_column_sets_column_status:
  assumes "findTicket (active ev) (tickets p) = Some t"
      and "over ev = Some (columnId col)"
  shows "findTicket (active ev) (tickets (handleDragEnd ev p)) = Some (t\<lparr>status := col\<rparr>)"
  using assms(1,2) newStatusOf_columnId by (rule handleDragEnd_active)

theorem drop_on_column_sets_column_status_witness:
  "findTicket ''T-1'' [sampleTicket ''T-1'' Done, sampleTicket ''T-2'' Backlog]
     = Some (sampleTicket ''T-1'' Done)
   \<and> columnId InProgress = ''column-in-progress''
   \<and> findTicket ''T-1''
       (tickets (handleDragEnd \<lparr>active = ''T-1'', over = Some ''column-in-progress''\<rparr>
          (samplePage [sampleTicket ''T-1'' Done, sampleTicket ''T-2'' Backlog])))
     = Some (sampleTicket ''T-1'' InProgress)"
proof -
  let ?ts = "[sampleTicket ''T-1'' Done, sampleTicket ''T-2'' Backlog]"
  let ?ev = "\<lparr>active = ''T-1'', over = Some ''column-in-progress''\<rparr>"
  have h1: "findTicket (active ?ev) (tickets (samplePage ?ts)) = Some (sampleTicket ''T-1'' Done)"
    by (simp add: findTicket_def sampleTicket_def samplePage_def)
  have c: "columnId InProgress = ''column-in-progress''" by (simp add: columnId_def)
  then have h2: "over ?ev = Some (columnId InProgress)" by simp
  from drop_on_column_sets_column_status[OF h1 h2] h1 c show ?thesis
    by (simp add: samplePage_def sampleTicket_def)
qed

subsection \<open>Dropping on a ticket\<close>

text \<open>
  Dropping on a ticket does not always give that ticket's status: a ticket in the done
  column whose id contains \<open>backlog\<close> is taken for the backlog column, and the dragged
  ticket lands in the backlog.
\<close>

theorem drop_on_ticket_counterexample:
  "map_option status (findTicket ''TICKET-backlog-7''
      [sampleTicket ''T-1'' InProgress, sampleTicket ''TICKET-backlog-7'' Done]) = Some Done
   \<and> map_option status (findTicket ''T-1''
      (tickets (handleDragEnd \<lparr>active = ''T-1'', over = Some ''TICKET-backlog-7''\<rparr>
         (samplePage [sampleTicket ''T-1'' InProgress, sampleTicket ''TICKET-backlog-7'' Done]))))
     = Some Backlog"
  by (simp add: handleDragEnd_def samplePage_def sampleTicket_def findTicket_def newStatusOf_def
      onTicketsChange_def)

text \<open>
  C5 (amended). For every drag gesture whose active ticket exists in the collection and
  whose drop-target identifier contains none of the substrings \<open>backlog\<close>, \<open>in-progress\<close>,
  \<open>ready-for-testing\<close>, \<open>done\<close> and is the id of an existing ticket \<open>u\<close> (the ticket found
  under that id), the active ticket afterwards has the status \<open>u\<close> had at the drop.
\<close>

theorem drop_on_ticket_adopts_its_status:
  assumes "findTicket (active ev) (tickets p) = Some t"
      and "over ev = Some overId"
      and "findTicket overId (tickets p) = Some u"
      and "\<not> includes_str overId ''backlog''" and "\<not> includes_str overId ''in-progress''"
      and "\<not> includes_str overId ''ready-for-testing''" and "\<not> includes_str overId ''done''"
  shows "findTicket (active ev) (tickets (handleDragEnd ev p)) = Some (t\<lparr>status := status u\<rparr>)"
proof -
  from assms(3-7) have "newStatusOf overId (tickets p) = Some (status u)"
    by (simp add: newStatusOf_ticket)
  with assms(1,2) show ?thesis by (rule handleDragEnd_active)
qed

theorem drop_on_ticket_adopts_its_status_witness:
  "findTicket ''T-1'' [sampleTicket ''T-1'' InProgress, sampleTicket ''TICKET-1000-0'' Done]
     = Some (sampleTicket ''T-1'' InProgress)
   \<and> findTicket ''TICKET-1000-0'' [sampleTicket ''T-1'' InProgress, sampleTicket ''TICKET-1000-0'' Done]
     = Some (sampleTicket ''TICKET-1000-0'' Done)
   \<and> \<not> includes_str ''TICKET-1000-0'' ''backlog'' \<and> \<not> includes_str ''TICKET-1000-0'' ''in-progress''
   \<and> \<not> includes_str ''TICKET-1000-0'' ''ready-for-testing'' \<and> \<not> includes_str ''TICKET-1000-0'' ''done''
   \<and> findTicket ''T-1''
       (tickets (handleDragEnd \<lparr>active = ''T-1'', over = Some ''TICKET-1000-0''\<rparr>
          (samplePage [sampleTicket ''T-1'' InProgress, sampleTicket ''TICKET-1000-0'' Done])))
     = Some (sampleTicket ''T-1'' Done)"
proof -
  let ?ts = "[sampleTicket ''T-1'' InProgress, sampleTicket ''TICKET-1000-0'' Done]"
  let ?ev = "\<lparr>active = ''T-1'', over = Some ''TICKET-1000-0''\<rparr>"
  have h1: "findTicket (active ?ev) (tickets (samplePage ?ts)) = Some (sampleTicket ''T-1'' InProgress)"
    by (simp add: findTicket_def sampleTicket_def samplePage_def)
  have h2: "over ?ev = Some ''TICKET-1000-0''" by simp
  have h3: "findTicket ''TICKET-1000-0'' (tickets (samplePage ?ts))
      = Some (sampleTicket ''TICKET-1000-0'' Done)"
    by (simp add: findTicket_def sampleTicket_def samplePage_def)
  have h4: "\<not> includes_str ''TICKET-1000-0'' ''backlog''" by simp
  have h5: "\<not> includes_str ''TICKET-1000-0'' ''in-progress''" by simp
  have h6: "\<not> includes_str ''TICKET-1000-0'' ''ready-for-testing''" by simp
  have h7: "\<not> includes_str ''TICKET-1000-0'' ''done''" by simp
  from drop_on_ticket_adopts_its_status[OF h1 h2 h3 h4 h5 h6 h7] h1 h3 h4 h5 h6 h7 show ?thesis
    by (simp add: samplePage_def sampleTicket_def)
qed

subsection \<open>Column substrings come first\<close>

text \<open>
  C10. The drop target is classified as a column by substring containment, tested in the
  order \<open>backlog\<close>, \<open>in-progress\<close>, \<open>ready-for-testing\<close>, \<open>done\<close>, before it is looked up as a
  ticket: the resolved status is the one named by the first substring the identifier
  contains, and the ticket lookup decides only when it contains none. So a gesture onto
  an identifier with such a substring gives the active ticket that status, whatever
  tickets the collection holds under that identifier.
\<close>

theorem column_substring_takes_precedence:
  "newStatusOf overId ts =
     (case firstColumnMatch overId of
        Some st \<Rightarrow> Some st
      | None \<Rightarrow> map_option status (findTicket overId ts)) \<and>
   (firstColumnMatch overId = Some st \<longrightarrow>
    findTicket (active ev) (tickets p) = Some t \<longrightarrow> over ev = Some overId \<longrightarrow>
      findTicket (active ev) (tickets (handleDragEnd ev p)) = Some (t\<lparr>status := st\<rparr>))"
proof (intro conjI impI)
  show n: "newStatusOf overId ts =
     (case firstColumnMatch overId of
        Some st \<Rightarrow> Some st
      | None \<Rightarrow> map_option status (findTicket overId ts))" for ts
    by (rule newStatusOf_firstColumnMatch)
  assume "firstColumnMatch overId = Some st"
  then have "newStatusOf overId (tickets p) = Some st" by (simp add: n)
  moreover assume "findTicket (active ev) (tickets p) = Some t" "over ev = Some overId"
  ultimately show "findTicket (active ev) (tickets (handleDragEnd ev p)) = Some (t\<lparr>status := st\<rparr>)"
    by (simp add: handleDragEnd_active)
qed

theorem column_substring_takes_precedence_witness:
  "firstColumnMatch ''done-backlog-7'' = Some Backlog
   \<and> findTicket ''T-1'' [sampleTicket ''T-1'' Done, sampleTicket ''done-backlog-7'' InProgress]
       = Some (sampleTicket ''T-1'' Done)
   \<and> findTicket ''done-backlog-7'' [sampleTicket ''T-1'' Done, sampleTicket ''done-backlog-7'' InProgress]
       = Some (sampleTicket ''done-backlog-7'' InProgress)
   \<and> findTicket ''T-1''
       (tickets (handleDragEnd \<lparr>active = ''T-1'', over = Some ''done-backlog-7''\<rparr>
          (samplePage [sampleTicket ''T-1'' Done, sampleTicket ''done-backlog-7'' InProgress])))
       = Some (sampleTicket ''T-1'' Backlog)"
proof -
  let ?ts = "[sampleTicket ''T-1'' Done, sampleTicket ''done-backlog-7'' InProgress]"
  let ?ev = "\<lparr>active = ''T-1'', over = Some ''done-backlog-7''\<rparr>"
  have h1: "firstColumnMatch ''done-backlog-7'' = Some Backlog"
    by (simp add: firstColumnMatch_def columnSubstrings_def)
  have h2: "findTicket (active ?ev) (tickets (samplePage ?ts)) = Some (sampleTicket ''T-1'' Done)"
    by (simp add: findTicket_def sampleTicket_def samplePage_def)
  have h3: "over ?ev = Some ''done-backlog-7''" by simp
  have u: "findTicket ''done-backlog-7'' ?ts = Some (sampleTicket ''done-backlog-7'' InProgress)"
    by (simp add: findTicket_def sampleTicket_def)
  from column_substring_takes_precedence[of "''done-backlog-7''" _ Backlog ?ev "samplePage ?ts"
      "sampleTicket ''T-1'' Done"] h1 h2 h3
  have "findTicket (active ?ev) (tickets (handleDragEnd ?ev (samplePage ?ts)))
      = Some ((sampleTicket ''T-1'' Done)\<lparr>status := Backlog\<rparr>)" by simp
  with h1 h2 u show ?thesis by (simp add: sampleTicket_def samplePage_def)
qed

section \<open>The developer action: results\<close>

text \<open>
  C9. When the round trip of the developer action rejects, the collection is the collection
  before (so the ticket keeps its status), the error message is recorded and, unless it is
  empty, shown in the banner, and the action is enabled again. The status becomes
  ready-for-testing, for the tickets carrying the id, only when the round trip returns.
\<close>

theorem failed_dev_action_keeps_status:
  "(agent ''dev'' (devRequest ticket) = Inl error \<longrightarrow>
      tickets (implementStory agent ticket p) = tickets p \<and>
      implementationError (implementStory agent ticket p)
        = Some (errorMessageOr ''Failed to implement story'' error) \<and>
      (errorMessageOr ''Failed to implement story'' error \<noteq> [] \<longrightarrow>
         errorBanner (implementStory agent ticket p)
           = Some (errorMessageOr ''Failed to implement story'' error)) \<and>
      devActionEnabled (implementStory agent ticket p) ticket) \<and>
   (agent ''dev'' (devRequest ticket) = Inr response \<longrightarrow>
      tickets (implementStory agent ticket p)
        = map (\<lambda>t. if ticket_id t = ticket_id ticket then t\<lparr>status := ReadyForTesting\<rparr> else t)
            (tickets p) \<and>
      implementationError (implementStory agent ticket p) = None)"
proof (cases "agent ''dev'' (devRequest ticket)")
  case rejected: (Inl thrown)
  then have "tickets (implementStory agent ticket p) = tickets p"
    by (simp add: implementStory_def Let_def)
  moreover from rejected have "implementationError (implementStory agent ticket p)
      = Some (errorMessageOr ''Failed to implement story'' thrown)"
    by (simp add: implementStory_def Let_def)
  moreover have "devActionEnabled (implementStory agent ticket p) ticket"
    by (simp add: implementStory_def Let_def devActionEnabled_def)
  ultimately show ?thesis using rejected by (simp add: errorBanner_def)
next
  case (Inr answer)
  then show ?thesis by (simp add: implementStory_def Let_def onTicketsChange_def)
qed

theorem failed_dev_action_keeps_status_witness:
  "sampleAgent (Inr sampleEpicText) (Inl serviceDown) ''dev''
       (devRequest (sampleTicket ''TICKET-1002-0'' InProgress))
     = Inl serviceDown
   \<and> tickets (implementStory (sampleAgent (Inr sampleEpicText) (Inl serviceDown))
        (sampleTicket ''TICKET-1002-0'' InProgress)
        (samplePage [sampleTicket ''TICKET-1002-0'' InProgress]))
     = [sampleTicket ''TICKET-1002-0'' InProgress]
   \<and> errorBanner (implementStory (sampleAgent (Inr sampleEpicText) (Inl serviceDown))
        (sampleTicket ''TICKET-1002-0'' InProgress)
        (samplePage [sampleTicket ''TICKET-1002-0'' InProgress]))
     = Some ''API Error: 503 Service Unavailable''
   \<and> sampleAgent (Inr sampleEpicText) (Inr ''Implemented.'') ''dev''
       (devRequest (sampleTicket ''TICKET-1002-0'' InProgress))
     = Inr ''Implemented.''
   \<and> tickets (implementStory (sampleAgent (Inr sampleEpicText) (Inr ''Implemented.''))
        (sampleTicket ''TICKET-1002-0'' InProgress)
        (samplePage [sampleTicket ''TICKET-1002-0'' InProgress]))
     = [sampleTicket ''TICKET-1002-0'' ReadyForTesting]"
proof -
  let ?t = "sampleTicket ''TICKET-1002-0'' InProgress"
  let ?p = "samplePage [?t]"
  let ?down = "sampleAgent (Inr sampleEpicText) (Inl serviceDown)"
  let ?up = "sampleAgent (Inr sampleEpicText) (Inr ''Implemented.'')"
  have h1: "?down ''dev'' (devRequest ?t) = Inl serviceDown"
    by (simp add: sampleAgent_def devRequest_def)
  have h2: "?up ''dev'' (devRequest ?t) = Inr ''Implemented.''"
    by (simp add: sampleAgent_def devRequest_def)
  have m: "errorMessageOr ''Failed to implement story'' serviceDown
      = ''API Error: 503 Service Unavailable''"
    by (simp add: errorMessageOr_def serviceDown_def)
  have t: "tickets ?p = [?t]" by (simp add: samplePage_def)
  from failed_dev_action_keeps_status[of ?down ?t serviceDown ?p] h1 m t
  have "tickets (implementStory ?down ?t ?p) = [?t]"
    and "errorBanner (implementStory ?down ?t ?p) = Some ''API Error: 503 Service Unavailable''"
    by simp_all
  moreover from failed_dev_action_keeps_status[of ?up ?t _ ?p "''Implemented.''"] h2 t
  have "tickets (implementStory ?up ?t ?p) = [sampleTicket ''TICKET-1002-0'' ReadyForTesting]"
    by (simp add: sampleTicket_def)
  ultimately show ?thesis using h1 h2 by simp
qed

text \<open>
  After a failed round trip the action is there to be invoked again: a ticket of the board
  for which it was offered is still on the board with the status it had, and the button is
  not disabled.
\<close>

lemma dev_action_can_be_retried:
  assumes "agent ''dev'' (devRequest ticket) = Inl error"
      and "t \<in> set (tickets p)" and "devActionOffered currentRole t"
  shows "t \<in> set (tickets (implementStory agent ticket p)) \<and> devActionOffered currentRole t \<and>
         devActionEnabled (implementStory agent ticket p) t"
  using assms by (simp add: implementStory_def Let_def devActionEnabled_def)

section \<open>Identifiers: results\<close>

subsection \<open>Decimal forms\<close>

lemma digitVal_digitChar: "d < 10 \<Longrightarrow> digitVal (digitChar d) = d"
proof -
  assume "d < 10"
  then have "d \<in> {0, 1, 2, 3, 4, 5, 6, 7, 8, 9}" by auto
  then show ?thesis by (elim insertE emptyE; simp add: digitVal_def digitChar_def)
qed

lemma isDigit_digitChar: "isDigit (digitChar d)"
proof -
  have "k \<in> {0, 1, 2, 3, 4, 5, 6, 7, 8, 9}" if "k < 10" for k :: nat
    using that by auto
  then have "d mod 10 \<in> {0, 1, 2, 3, 4, 5, 6, 7, 8, 9}" by simp
  then show ?thesis by (elim insertE emptyE; simp add: digitChar_def isDigit_def)
qed

lemma parseInt_snoc: "parseInt (s @ [c]) = 10 * parseInt s + digitVal c"
  by (simp add: parseInt_def)

text \<open>Reading back the decimal form of a number gives the number.\<close>

lemma parseInt_showNat: "parseInt (showNat n) = n"
proof (induction n rule: showNat.induct)
  case (1 n)
  show ?case
  proof (cases "n < 10")
    case True
    then show ?thesis by (simp add: showNat.simps[of n] parseInt_def digitVal_digitChar)
  next
    case False
    with 1 have "parseInt (showNat (n div 10)) = n div 10" by simp
    with False show ?thesis
      by (simp add: showNat.simps[of n] parseInt_snoc digitVal_digitChar)
  qed
qed

lemma showNat_inj: "showNat m = showNat n \<Longrightarrow> m = n"
  by (metis parseInt_showNat)

lemma showNat_digits: "c \<in> set (showNat n) \<Longrightarrow> isDigit c"
proof (induction n rule: showNat.induct)
  case (1 n)
  then show ?case
    by (cases "n < 10") (auto simp: showNat.simps[of n] isDigit_digitChar)
qed

lemma dash_not_in_showNat: "CHR ''-'' \<notin> set (showNat n)"
  using showNat_digits[of "CHR ''-''" n] by (auto simp: isDigit_def)

lemma o_not_in_showNat: "CHR ''o'' \<notin> set (showNat n)"
  using showNat_digits[of "CHR ''o''" n] by (auto simp: isDigit_def)

lemma showNat_values:
  "showNat 0 = ''0''" "showNat 1000 = ''1000''" "showNat 1002 = ''1002''"
  "showNat 5000 = ''5000''" "showNat 5002 = ''5002''"
  "showNat 1730000000000 = ''1730000000000''"
  by (simp_all add: showNat.simps digitChar_def)

subsection \<open>The two identifier shapes\<close>

lemma epicIdAt_inj: "epicIdAt m = epicIdAt n \<Longrightarrow> m = n"
  by (simp add: epicIdAt_def showNat_inj)

lemma ticketIdAt_inj: "ticketIdAt m i = ticketIdAt n j \<Longrightarrow> m = n \<and> i = j"
proof -
  assume "ticketIdAt m i = ticketIdAt n j"
  then have "showNat m @ CHR ''-'' # showNat i = showNat n @ CHR ''-'' # showNat j"
    by (simp add: ticketIdAt_def)
  then have "showNat m = showNat n \<and> showNat i = showNat j"
    using dash_not_in_showNat by (simp add: append_Cons_eq_iff)
  then show ?thesis by (simp add: showNat_inj)
qed

lemma epicIdAt_eq_iff: "epicIdAt m = epicIdAt n \<longleftrightarrow> m = n"
  using epicIdAt_inj by blast

lemma ticketIdAt_eq_iff: "ticketIdAt m i = ticketIdAt n j \<longleftrightarrow> m = n \<and> i = j"
  using ticketIdAt_inj by blast

lemma epicIdAt_neq_ticketIdAt: "epicIdAt m \<noteq> ticketIdAt n i"
  by (simp add: epicIdAt_def ticketIdAt_def)

lemma ticketIdAt_neq_epicIdAt: "ticketIdAt n i \<noteq> epicIdAt m"
  by (simp add: epicIdAt_def ticketIdAt_def)

lemma mintedId_epic: "mintedId m = epicIdAt r \<Longrightarrow> mintedReading m = r"
  by (cases m) (simp_all add: epicIdAt_eq_iff ticketIdAt_neq_epicIdAt)

lemma mintedId_ticket: "mintedId m = ticketIdAt r i \<Longrightarrow> mintedReading m = r"
  by (cases m) (simp_all add: ticketIdAt_eq_iff epicIdAt_neq_ticketIdAt)

text \<open>
  No identifier the modal builds contains a column substring, so on the tickets the
  application creates itself the drag handler never mistakes a ticket for a column.
\<close>

lemma o_not_in_mintedId: "CHR ''o'' \<notin> set (mintedId m)"
  by (cases m) (simp_all add: epicIdAt_def ticketIdAt_def o_not_in_showNat)

lemma minted_ids_are_not_columns: "firstColumnMatch (mintedId m) = None"
proof -
  have "\<not> includes_str (mintedId m) sub" if "CHR ''o'' \<in> set sub" for sub
    using that includes_str_set[of "mintedId m" sub] o_not_in_mintedId[of m] by blast
  then have "\<not> includes_str (mintedId m) ''backlog''" "\<not> includes_str (mintedId m) ''in-progress''"
    "\<not> includes_str (mintedId m) ''ready-for-testing''" "\<not> includes_str (mintedId m) ''done''"
    by simp_all
  then show ?thesis by (simp add: firstColumnMatch_def columnSubstrings_def)
qed

section \<open>The extraction pipeline: results\<close>

subsection \<open>The shape of a run\<close>

lemma epic_id_epicOf: "epic_id (epicOf clock form epicResponse) = epicIdAt (clock 0)"
  by (simp add: epicOf_def Let_def)

lemma storiesOf_nonempty: "storiesOf form epic storiesResponse \<noteq> []"
  by (simp add: storiesOf_def Let_def)

lemma epicFromConversation_cases:
  "epicFromConversation agent clock form msgs =
     (case agent ''pm'' (epicRequest (summaryOf msgs)) of
        Inl error \<Rightarrow> Inl error
      | Inr epicResponse \<Rightarrow>
          (case agent ''pm'' (storiesRequest (summaryOf msgs)) of
             Inl error \<Rightarrow> Inl error
           | Inr storiesResponse \<Rightarrow>
               Inr (map (ticketOfStory clock form (epic_id (epicOf clock form epicResponse)))
                      (enumerate 0 (storiesOf form (epicOf clock form epicResponse) storiesResponse)),
                    epicOf clock form epicResponse)))"
  by (simp add: epicFromConversation_def Let_def split: sum.splits)

lemma epicFromConversation_Inr:
  assumes "epicFromConversation agent clock form msgs = Inr (newTickets, epic)"
  shows "\<exists>stories. stories \<noteq> [] \<and>
           newTickets = map (ticketOfStory clock form (epic_id epic)) (enumerate 0 stories) \<and>
           epic_id epic = epicIdAt (clock 0)"
proof (cases "agent ''pm'' (epicRequest (summaryOf msgs))")
  case (Inl error)
  with assms show ?thesis by (simp add: epicFromConversation_cases)
next
  case first: (Inr epicResponse)
  show ?thesis
  proof (cases "agent ''pm'' (storiesRequest (summaryOf msgs))")
    case (Inl error)
    with first assms show ?thesis by (simp add: epicFromConversation_cases)
  next
    case (Inr storiesResponse)
    with first assms have e: "epic = epicOf clock form epicResponse"
      and n: "newTickets = map (ticketOfStory clock form (epic_id epic))
                (enumerate 0 (storiesOf form epic storiesResponse))"
      by (auto simp: epicFromConversation_cases)
    from e have "epic_id epic = epicIdAt (clock 0)" by (simp add: epic_id_epicOf)
    with n storiesOf_nonempty show ?thesis by blast
  qed
qed

text \<open>A run reaches materialization exactly when both round trips return.\<close>

lemma epicFromConversation_succeeds:
  assumes "agent ''pm'' (epicRequest (summaryOf msgs)) = Inr epicResponse"
      and "agent ''pm'' (storiesRequest (summaryOf msgs)) = Inr storiesResponse"
  shows "\<exists>newTickets epic. epicFromConversation agent clock form msgs = Inr (newTickets, epic)"
  using assms by (simp add: epicFromConversation_cases)

lemma epicFromConversation_fails_first:
  assumes "agent ''pm'' (epicRequest (summaryOf msgs)) = Inl error"
  shows "epicFromConversation agent clock form msgs = Inl error"
  using assms by (simp add: epicFromConversation_cases)

lemma epicFromConversation_fails_second:
  assumes "agent ''pm'' (epicRequest (summaryOf msgs)) = Inr epicResponse"
      and "agent ''pm'' (storiesRequest (summaryOf msgs)) = Inl error"
  shows "epicFromConversation agent clock form msgs = Inl error"
  using assms by (simp add: epicFromConversation_cases)

lemma generate_success_page:
  assumes "epicFromConversation agent clock (ticketForm p) (messages p) = Inr (newTickets, epic)"
  shows "tickets (generateEpicFromConversation agent clock p) = tickets p @ newTickets"
    and "epics (generateEpicFromConversation agent clock p) = epics p @ [epic]"
  using assms
  by (simp_all add: generateEpicFromConversation_def Let_def resetModal_def onClose_def
      handleTicketsCreated_def)

text \<open>
  On a failed round trip the handler changes nothing a user can see: the page is the page
  before, with the spinner flag off and one more line on the console.
\<close>

lemma generate_failure_only_logs:
  assumes "epicFromConversation agent clock (ticketForm p) (messages p) = Inl error"
  shows "generateEpicFromConversation agent clock p =
           p\<lparr>isCreatingTicket := False, console := console p @ [''Epic generation failed:'']\<rparr>"
  using assms by (simp add: generateEpicFromConversation_def Let_def)

lemma ticket_ids_of_stories:
  "map ticket_id (map (ticketOfStory clock form e) (enumerate 0 stories)) =
     map (\<lambda>index. ticketIdAt (clock (2 + index)) index) [0..<length stories]"
proof -
  have "ticket_id \<circ> ticketOfStory clock form e =
      (\<lambda>index. ticketIdAt (clock (2 + index)) index) \<circ> fst"
    by (auto simp: ticketOfStory_def)
  then have "map ticket_id (map (ticketOfStory clock form e) (enumerate 0 stories)) =
      map (\<lambda>index. ticketIdAt (clock (2 + index)) index) (map fst (enumerate 0 stories))"
    by (simp only: map_map)
  then show ?thesis by simp
qed

text \<open>The values the story-point select can put into the form are never zero.\<close>

lemma story_point_items_nonzero:
  "v \<in> set storyPointItems \<Longrightarrow> form_storyPoints (ticketForm (selectStoryPoints v p)) \<noteq> 0"
  by (auto simp: storyPointItems_def selectStoryPoints_def parseInt_def digitVal_def)

lemma reset_story_points: "form_storyPoints (ticketForm (resetModal now p)) = 5"
  by (simp add: resetModal_def initialTicketForm_def)

subsection \<open>Runs on the sample data\<close>

lemma sampleAgent_epic: "sampleAgent a b role (epicRequest s) = a"
  by (simp add: sampleAgent_def epicRequest_def)

lemma sampleAgent_stories: "sampleAgent a b role (storiesRequest s) = b"
  by (simp add: sampleAgent_def storiesRequest_def)

lemma epicOf_sample:
  "epicOf clock form sampleEpicText =
     \<lparr>epic_id = epicIdAt (clock 0), epic_title = ''User Login'',
      epic_description = ''Allow users to authenticate.'', createdAt = clock 1\<rparr>"
  by (simp add: epicOf_def Let_def epicTitlePattern_def epicDescPattern_def sampleEpicText_def
      nl_def runLength_def isSpace_def dot_def dotAll_def trim_def)

lemma scanStories_sample:
  "scanStories sampleStoryText =
     [\<lparr>story_title = ''Email/password login'', story_description = ''Users can log in.'',
       story_points = 5\<rparr>]"
  by (simp add: scanStories.simps sampleStoryText_def storyPattern_def nl_def runLength_def
      isDigit_def isSpace_def dotAll_def storyOf_def trim_def parseInt_def digitVal_def)

lemma scanStories_no_match: "scanStories ''I need more detail.'' = []"
  by (simp add: scanStories.simps storyPattern_def)

text \<open>
  The scenario of the specification: the epic pass answers with a title and a description,
  the story pass with one block.
\<close>

lemma run_sample:
  "epicFromConversation (sampleAgent (Inr sampleEpicText) (Inr sampleStoryText)) clock
       initialTicketForm msgs =
     Inr ([\<lparr>ticket_id = ticketIdAt (clock 2) 0, title = ''Email/password login'',
            description = ''Users can log in.'', status = Backlog, assignee = Dev,
            priority = Medium, storyPoints = Some 5, epicId = Some (epicIdAt (clock 0))\<rparr>],
          \<lparr>epic_id = epicIdAt (clock 0), epic_title = ''User Login'',
           epic_description = ''Allow users to authenticate.'', createdAt = clock 1\<rparr>)"
  by (simp add: epicFromConversation_cases sampleAgent_epic sampleAgent_stories epicOf_sample
      storiesOf_def scanStories_sample ticketOfStory_def enumerate_eq_zip initialTicketForm_def
      numeral_2_eq_2)

lemma generate_sample:
  assumes "ticketForm p = initialTicketForm"
  shows "tickets (generateEpicFromConversation
            (sampleAgent (Inr sampleEpicText) (Inr sampleStoryText)) clock p) =
          tickets p @ [\<lparr>ticket_id = ticketIdAt (clock 2) 0, title = ''Email/password login'',
            description = ''Users can log in.'', status = Backlog, assignee = Dev,
            priority = Medium, storyPoints = Some 5, epicId = Some (epicIdAt (clock 0))\<rparr>]"
    and "epics (generateEpicFromConversation
            (sampleAgent (Inr sampleEpicText) (Inr sampleStoryText)) clock p) =
          epics p @ [\<lparr>epic_id = epicIdAt (clock 0), epic_title = ''User Login'',
           epic_description = ''Allow users to authenticate.'', createdAt = clock 1\<rparr>]"
    and "ticketForm (generateEpicFromConversation
            (sampleAgent (Inr sampleEpicText) (Inr sampleStoryText)) clock p) = initialTicketForm"
  using run_sample[of clock "messages p"] assms
  by (simp_all add: generateEpicFromConversation_def Let_def resetModal_def onClose_def
      handleTicketsCreated_def)

subsection \<open>A successful run\<close>

text \<open>
  C1. Every run of the pipeline that reaches materialization appends exactly one epic to
  the epics and at least one ticket to the tickets, and every ticket it appends refers to
  that epic, is in the backlog, and has the assignee and the priority of the manual form.
\<close>

theorem successful_run_produces_epic_and_tickets:
  assumes "epicFromConversation agent clock (ticketForm p) (messages p) = Inr (newTickets, epic)"
  shows "tickets (generateEpicFromConversation agent clock p) = tickets p @ newTickets \<and>
         epics (generateEpicFromConversation agent clock p) = epics p @ [epic] \<and>
         newTickets \<noteq> [] \<and>
         (\<forall>t \<in> set newTickets.
            epicId t = Some (epic_id epic) \<and> status t = Backlog \<and>
            assignee t = form_assignee (ticketForm p) \<and>
            priority t = form_priority (ticketForm p))"
proof -
  from epicFromConversation_Inr[OF assms] obtain stories where
    ne: "stories \<noteq> []" and
    new: "newTickets = map (ticketOfStory clock (ticketForm p) (epic_id epic)) (enumerate 0 stories)"
    by blast
  from new ne have "newTickets \<noteq> []" by (simp add: enumerate_eq_zip)
  moreover from new have "\<forall>t \<in> set newTickets.
       epicId t = Some (epic_id epic) \<and> status t = Backlog \<and>
       assignee t = form_assignee (ticketForm p) \<and> priority t = form_priority (ticketForm p)"
    by (auto simp: ticketOfStory_def)
  ultimately show ?thesis using generate_success_page[OF assms] by simp
qed

theorem successful_run_produces_epic_and_tickets_witness:
  "epicFromConversation (sampleAgent (Inr sampleEpicText) (Inr sampleStoryText)) (tickingClock 1000)
       (ticketForm (samplePage [])) (messages (samplePage []))
     = Inr ([sampleTicket ''TICKET-1002-0'' Backlog], sampleEpic)
   \<and> tickets (generateEpicFromConversation (sampleAgent (Inr sampleEpicText) (Inr sampleStoryText))
                (tickingClock 1000) (samplePage []))
     = [sampleTicket ''TICKET-1002-0'' Backlog]
   \<and> epics (generateEpicFromConversation (sampleAgent (Inr sampleEpicText) (Inr sampleStoryText))
                (tickingClock 1000) (samplePage []))
     = [sampleEpic]
   \<and> epicId (sampleTicket ''TICKET-1002-0'' Backlog) = Some (epic_id sampleEpic)
   \<and> status (sampleTicket ''TICKET-1002-0'' Backlog) = Backlog
   \<and> assignee (sampleTicket ''TICKET-1002-0'' Backlog) = form_assignee (ticketForm (samplePage []))
   \<and> priority (sampleTicket ''TICKET-1002-0'' Backlog) = form_priority (ticketForm (samplePage []))"
proof -
  let ?agent = "sampleAgent (Inr sampleEpicText) (Inr sampleStoryText)"
  let ?p = "samplePage []"
  have f: "ticketForm ?p = initialTicketForm" by (simp add: samplePage_def)
  have run: "epicFromConversation ?agent (tickingClock 1000) (ticketForm ?p) (messages ?p)
      = Inr ([sampleTicket ''TICKET-1002-0'' Backlog], sampleEpic)"
    unfolding f run_sample
    by (simp add: sampleTicket_def sampleEpic_def tickingClock_def ticketIdAt_def epicIdAt_def
        showNat_values)
  have "tickets ?p = []" "epics ?p = []" by (simp_all add: samplePage_def)
  with successful_run_produces_epic_and_tickets[OF run] run show ?thesis by simp
qed

subsection \<open>The fallback ticket\<close>

text \<open>
  C6. When both round trips return and the story pattern has no match in the second
  response, the run produces the epic of the first response and exactly one ticket, whose
  title and description are the epic's and whose story points are the story-point value of
  the manual form. The form value is taken non-zero: the form starts and is reset at 5 and
  its select offers 1, 2, 3, 5, 8 and 13 only (\<open>story_point_items_nonzero\<close>).
\<close>

theorem no_story_match_gives_one_fallback_ticket:
  assumes "agent ''pm'' (epicRequest (summaryOf msgs)) = Inr epicResponse"
      and "agent ''pm'' (storiesRequest (summaryOf msgs)) = Inr storiesResponse"
      and "scanStories storiesResponse = []"
      and "form_storyPoints form \<noteq> 0"
  shows "case epicFromConversation agent clock form msgs of
           Inl error \<Rightarrow> False
         | Inr (newTickets, epic) \<Rightarrow>
             epic = epicOf clock form epicResponse \<and>
             map title newTickets = [epic_title epic] \<and>
             map description newTickets = [epic_description epic] \<and>
             map storyPoints newTickets = [Some (form_storyPoints form)]"
proof -
  let ?epic = "epicOf clock form epicResponse"
  from assms(3,4) have st: "storiesOf form ?epic storiesResponse =
      [\<lparr>story_title = epic_title ?epic, story_description = epic_description ?epic,
        story_points = form_storyPoints form\<rparr>]"
    by (simp add: storiesOf_def)
  from assms(1,2) have "epicFromConversation agent clock form msgs =
      Inr (map (ticketOfStory clock form (epic_id ?epic))
             (enumerate 0 (storiesOf form ?epic storiesResponse)), ?epic)"
    by (simp add: epicFromConversation_cases)
  then show ?thesis unfolding st by (simp add: ticketOfStory_def enumerate_eq_zip)
qed

theorem no_story_match_gives_one_fallback_ticket_witness:
  "sampleAgent (Inr sampleEpicText) (Inr ''I need more detail.'') ''pm''
       (epicRequest (summaryOf (messages (samplePage [])))) = Inr sampleEpicText
   \<and> sampleAgent (Inr sampleEpicText) (Inr ''I need more detail.'') ''pm''
       (storiesRequest (summaryOf (messages (samplePage [])))) = Inr ''I need more detail.''
   \<and> scanStories ''I need more detail.'' = []
   \<and> form_storyPoints initialTicketForm = 5
   \<and> epicFromConversation (sampleAgent (Inr sampleEpicText) (Inr ''I need more detail.''))
        (tickingClock 1000) initialTicketForm (messages (samplePage []))
     = Inr ([\<lparr>ticket_id = ''TICKET-1002-0'', title = ''User Login'',
              description = ''Allow users to authenticate.'', status = Backlog, assignee = Dev,
              priority = Medium, storyPoints = Some 5, epicId = Some ''EPIC-1000''\<rparr>],
            sampleEpic)"
proof -
  let ?agent = "sampleAgent (Inr sampleEpicText) (Inr ''I need more detail.'')"
  let ?msgs = "messages (samplePage [])"
  let ?run = "epicFromConversation ?agent (tickingClock 1000) initialTicketForm ?msgs"
  have h1: "?agent ''pm'' (epicRequest (summaryOf ?msgs)) = Inr sampleEpicText"
    by (rule sampleAgent_epic)
  have h2: "?agent ''pm'' (storiesRequest (summaryOf ?msgs)) = Inr ''I need more detail.''"
    by (rule sampleAgent_stories)
  have h3: "scanStories ''I need more detail.'' = []" by (rule scanStories_no_match)
  have h4: "form_storyPoints initialTicketForm \<noteq> 0" by (simp add: initialTicketForm_def)
  have e: "epicOf (tickingClock 1000) initialTicketForm sampleEpicText = sampleEpic"
    by (simp add: epicOf_sample sampleEpic_def tickingClock_def epicIdAt_def showNat_values)
  obtain newTickets epic where r: "?run = Inr (newTickets, epic)"
    using epicFromConversation_succeeds[where agent = ?agent and msgs = ?msgs, OF h1 h2] by blast
  with no_story_match_gives_one_fallback_ticket[where agent = ?agent and msgs = ?msgs
      and clock = "tickingClock 1000", OF h1 h2 h3 h4]
  have fields: "epic = sampleEpic" "map title newTickets = [epic_title epic]"
    "map description newTickets = [epic_description epic]"
    "map storyPoints newTickets = [Some (form_storyPoints initialTicketForm)]"
    by (simp_all add: e)
  then obtain t where t: "newTickets = [t]" by auto
  from r h1 h2 have "newTickets =
      map (ticketOfStory (tickingClock 1000) initialTicketForm (epic_id epic))
        (enumerate 0 (storiesOf initialTicketForm epic ''I need more detail.''))"
    by (auto simp: epicFromConversation_cases)
  with t fields have "t = \<lparr>ticket_id = ''TICKET-1002-0'', title = ''User Login'',
              description = ''Allow users to authenticate.'', status = Backlog, assignee = Dev,
              priority = Medium, storyPoints = Some 5, epicId = Some ''EPIC-1000''\<rparr>"
    by (simp add: storiesOf_def h3 ticketOfStory_def enumerate_eq_zip sampleEpic_def
        initialTicketForm_def tickingClock_def ticketIdAt_def showNat_values)
  with r t fields h1 h2 h3 show ?thesis by (simp add: initialTicketForm_def)
qed

subsection \<open>Uniqueness of identifiers\<close>

text \<open>
  Identifiers are built from the clock alone and never compared with the collections. Two
  runs that read the same millisecond produce the same ticket id and the same epic id:
  after the first run the board holds one ticket and one epic, after the second it holds
  each identifier twice.
\<close>

theorem repeated_clock_reading_repeats_ids:
  "map ticket_id (tickets
      (generateEpicFromConversation (sampleAgent (Inr sampleEpicText) (Inr sampleStoryText))
         (stoppedClock 1730000000000) (samplePage [])))
     = [''TICKET-1730000000000-0'']
   \<and> map ticket_id (tickets
      (generateEpicFromConversation (sampleAgent (Inr sampleEpicText) (Inr sampleStoryText))
         (stoppedClock 1730000000000)
         (generateEpicFromConversation (sampleAgent (Inr sampleEpicText) (Inr sampleStoryText))
            (stoppedClock 1730000000000) (samplePage []))))
     = [''TICKET-1730000000000-0'', ''TICKET-1730000000000-0'']
   \<and> map epic_id (epics
      (generateEpicFromConversation (sampleAgent (Inr sampleEpicText) (Inr sampleStoryText))
         (stoppedClock 1730000000000)
         (generateEpicFromConversation (sampleAgent (Inr sampleEpicText) (Inr sampleStoryText))
            (stoppedClock 1730000000000) (samplePage []))))
     = [''EPIC-1730000000000'', ''EPIC-1730000000000'']"
proof -
  have f: "ticketForm (samplePage []) = initialTicketForm" by (simp add: samplePage_def)
  have "tickets (samplePage []) = []" "epics (samplePage []) = []"
    by (simp_all add: samplePage_def)
  then show ?thesis
    by (simp add: generate_sample[OF generate_sample(3)[OF f]] generate_sample[OF f]
        stoppedClock_def ticketIdAt_def epicIdAt_def showNat_values)
qed

text \<open>
  C7 (amended). The epic identifier and the ticket identifiers produced by one run are
  pairwise distinct. They are distinct from every identifier already present provided each
  of those was built, as an epic or a ticket identifier, from a clock reading different
  from the readings that enter the identifiers of this run.
\<close>

theorem generated_ids_distinct_and_fresh:
  assumes "epicFromConversation agent clock form msgs = Inr (newTickets, epic)"
      and "set (map mintedReading existing) \<inter> set (idReadings clock (length newTickets)) = {}"
  shows "distinct (epic_id epic # map ticket_id newTickets) \<and>
         set (epic_id epic # map ticket_id newTickets) \<inter> set (map mintedId existing) = {}"
proof -
  from epicFromConversation_Inr[OF assms(1)] obtain stories where
    new: "newTickets = map (ticketOfStory clock form (epic_id epic)) (enumerate 0 stories)"
    and eid: "epic_id epic = epicIdAt (clock 0)"
    by blast
  let ?n = "length newTickets"
  let ?f = "\<lambda>index. ticketIdAt (clock (2 + index)) index"
  from new have len: "length stories = ?n" by simp
  have ids: "map ticket_id newTickets = map ?f [0..<?n]"
    unfolding len[symmetric] by (subst new) (rule ticket_ids_of_stories)
  have "inj_on ?f (set [0..<?n])"
    by (rule inj_onI) (simp add: ticketIdAt_eq_iff)
  then have d: "distinct (map ticket_id newTickets)"
    unfolding ids by (simp add: distinct_map)
  have e: "epic_id epic \<notin> set (map ticket_id newTickets)"
    unfolding ids eid by (simp add: image_iff epicIdAt_neq_ticketIdAt)
  have fresh: "x \<notin> set (map mintedId existing)"
    if x: "x \<in> set (epic_id epic # map ticket_id newTickets)" for x
  proof
    assume "x \<in> set (map mintedId existing)"
    then obtain m where m: "m \<in> set existing" and xm: "mintedId m = x" by auto
    from m have "mintedReading m \<in> set (map mintedReading existing)" by simp
    with assms(2) have apart: "mintedReading m \<notin> set (idReadings clock ?n)" by blast
    from x have "x = epicIdAt (clock 0) \<or> x \<in> set (map ?f [0..<?n])"
      unfolding ids eid by simp
    then show False
    proof
      assume "x = epicIdAt (clock 0)"
      with xm have "mintedReading m = clock 0" by (simp add: mintedId_epic)
      with apart show False by (simp add: idReadings_def)
    next
      assume "x \<in> set (map ?f [0..<?n])"
      then obtain index where i: "index < ?n" and "x = ticketIdAt (clock (2 + index)) index"
        by auto
      with xm have "mintedReading m = clock (2 + index)" by (simp add: mintedId_ticket)
      moreover from i have "clock (2 + index) \<in> set (idReadings clock ?n)"
        by (simp add: idReadings_def)
      ultimately show False using apart by simp
    qed
  qed
  from fresh have "set (epic_id epic # map ticket_id newTickets) \<inter> set (map mintedId existing) = {}"
    by blast
  with d e show ?thesis by simp
qed

theorem generated_ids_distinct_and_fresh_witness:
  "epicFromConversation (sampleAgent (Inr sampleEpicText) (Inr sampleStoryText)) (tickingClock 5000)
       initialTicketForm (messages (samplePage []))
     = Inr ([(sampleTicket ''TICKET-5002-0'' Backlog)\<lparr>epicId := Some ''EPIC-5000''\<rparr>],
            sampleEpic\<lparr>epic_id := ''EPIC-5000'', createdAt := 5001\<rparr>)
   \<and> set (map mintedReading [EpicAt 1000, TicketAt 1002 0])
         \<inter> set (idReadings (tickingClock 5000) 1) = {}
   \<and> map mintedId [EpicAt 1000, TicketAt 1002 0] = [''EPIC-1000'', ''TICKET-1002-0'']
   \<and> distinct [''EPIC-5000'', ''TICKET-5002-0'']
   \<and> set [''EPIC-5000'', ''TICKET-5002-0''] \<inter> set [''EPIC-1000'', ''TICKET-1002-0''] = {}"
proof -
  let ?new = "[(sampleTicket ''TICKET-5002-0'' Backlog)\<lparr>epicId := Some ''EPIC-5000''\<rparr>]"
  let ?epic = "sampleEpic\<lparr>epic_id := ''EPIC-5000'', createdAt := 5001\<rparr>"
  let ?existing = "[EpicAt 1000, TicketAt 1002 0]"
  have run: "epicFromConversation (sampleAgent (Inr sampleEpicText) (Inr sampleStoryText))
       (tickingClock 5000) initialTicketForm (messages (samplePage [])) = Inr (?new, ?epic)"
    unfolding run_sample
    by (simp add: sampleTicket_def sampleEpic_def tickingClock_def ticketIdAt_def epicIdAt_def
        showNat_values)
  have apart: "set (map mintedReading ?existing)
      \<inter> set (idReadings (tickingClock 5000) (length ?new)) = {}"
    by (simp add: idReadings_def tickingClock_def)
  have ids: "map mintedId ?existing = [''EPIC-1000'', ''TICKET-1002-0'']"
    by (simp add: ticketIdAt_def epicIdAt_def showNat_values)
  have new: "epic_id ?epic # map ticket_id ?new = [''EPIC-5000'', ''TICKET-5002-0'']"
    by (simp add: sampleTicket_def sampleEpic_def)
  from generated_ids_distinct_and_fresh[OF run apart] run apart ids
  show ?thesis unfolding new ids by simp
qed

subsection \<open>A failed round trip\<close>

text \<open>
  C8. The service answers the first pass, or the second, with \<open>503 Service Unavailable\<close>.
  The run aborts and the tickets and epics are the ones before, but nothing reports the
  failure to the user: the page after the run is the page before it (same messages, no
  error recorded, modal still open) with one line added to the browser console.
\<close>

theorem failed_pass_is_only_logged:
  "generateEpicFromConversation (sampleAgent (Inl serviceDown) (Inr sampleStoryText))
       (tickingClock 1000) (samplePage [sampleTicket ''TICKET-900-0'' InProgress])
     = (samplePage [sampleTicket ''TICKET-900-0'' InProgress])
         \<lparr>console := [''Epic generation failed:'']\<rparr>
   \<and> generateEpicFromConversation (sampleAgent (Inr sampleEpicText) (Inl serviceDown))
       (tickingClock 1000) (samplePage [sampleTicket ''TICKET-900-0'' InProgress])
     = (samplePage [sampleTicket ''TICKET-900-0'' InProgress])
         \<lparr>console := [''Epic generation failed:'']\<rparr>"
proof -
  let ?p = "samplePage [sampleTicket ''TICKET-900-0'' InProgress]"
  have 1: "epicFromConversation (sampleAgent (Inl serviceDown) (Inr sampleStoryText))
      (tickingClock 1000) (ticketForm ?p) (messages ?p) = Inl serviceDown"
    by (rule epicFromConversation_fails_first) (rule sampleAgent_epic)
  have 2: "epicFromConversation (sampleAgent (Inr sampleEpicText) (Inl serviceDown))
      (tickingClock 1000) (ticketForm ?p) (messages ?p) = Inl serviceDown"
    by (rule epicFromConversation_fails_second) (rule sampleAgent_epic, rule sampleAgent_stories)
  have p: "?p\<lparr>isCreatingTicket := False, console := console ?p @ [''Epic generation failed:'']\<rparr>
      = ?p\<lparr>console := [''Epic generation failed:'']\<rparr>"
    by (simp add: samplePage_def)
  show ?thesis
    unfolding generate_failure_only_logs[OF 1] generate_failure_only_logs[OF 2] p by simp
qed

end
